theory Spec2Isabelle
  imports Complex_Main
begin

section \<open>The A/B testing simulator of \<^verbatim>\<open>scripts/ab_testing_simulation.py\<close>\<close>

text \<open>
  The simulator is Python. Its strings are \<^typ>\<open>string\<close>, its \<^verbatim>\<open>int\<close>s are \<^typ>\<open>int\<close>,
  its dictionaries are maps or, where the iteration order matters, association lists.
  Its floats are modelled by \<^typ>\<open>real\<close>: the arithmetic is exact, the rounding of
  binary64 is not part of the model. A Python exception is a value of \<open>py_error\<close>,
  and a function that can raise returns \<open>py_error + 'a\<close>.
\<close>

subsection \<open>Python values\<close>

datatype py_error = KeyError string | OverflowError

text \<open>\<^verbatim>\<open>d[k]\<close> raises \<^verbatim>\<open>KeyError(k)\<close> on a missing key; \<^verbatim>\<open>d.get(k, dflt)\<close> does not.\<close>

definition getitem :: "(string \<rightharpoonup> 'v) \<Rightarrow> string \<Rightarrow> py_error + 'v" where
  "getitem d k = (case d k of None \<Rightarrow> Inl (KeyError k) | Some v \<Rightarrow> Inr v)"

definition dict_get :: "(string \<rightharpoonup> 'v) \<Rightarrow> string \<Rightarrow> 'v \<Rightarrow> 'v" where
  "dict_get d k dflt = (case d k of None \<Rightarrow> dflt | Some v \<Rightarrow> v)"

subsection \<open>The variant catalog: \<^verbatim>\<open>generate_test_variants\<close>\<close>

record variant_info =
  variant_name :: string
  variant_description :: string

record test_info =
  test_id :: string
  test_name :: string
  variants :: "(string \<times> variant_info) list"

text \<open>
  The dictionary literal of lines 64 to 99, in its insertion order (the order
  \<^verbatim>\<open>tests.items()\<close> iterates in).
\<close>

definition generate_test_variants :: "(string \<times> test_info) list" where
  "generate_test_variants =
    [(''icon_design_test'',
       \<lparr>test_id = ''icon_design_001'', test_name = ''App Icon Design Test'',
        variants =
         [(''control'', \<lparr>variant_name = ''Original Icon'',
             variant_description = ''Current app icon design''\<rparr>),
          (''variant_a'', \<lparr>variant_name = ''Minimalist Icon'',
             variant_description = ''Clean, minimalist icon design''\<rparr>),
          (''variant_b'', \<lparr>variant_name = ''Colorful Icon'',
             variant_description = ''Bright, colorful icon design''\<rparr>)]\<rparr>),
     (''description_test'',
       \<lparr>test_id = ''description_002'', test_name = ''App Description Length Test'',
        variants =
         [(''control'', \<lparr>variant_name = ''Short Description'',
             variant_description = ''Concise app description (50-100 words)''\<rparr>),
          (''variant_a'', \<lparr>variant_name = ''Detailed Description'',
             variant_description = ''Comprehensive app description (200-300 words)''\<rparr>)]\<rparr>),
     (''pricing_test'',
       \<lparr>test_id = ''pricing_003'', test_name = ''Pricing Strategy Test'',
        variants =
         [(''control'', \<lparr>variant_name = ''Free'',
             variant_description = ''Completely free app''\<rparr>),
          (''variant_a'', \<lparr>variant_name = ''Freemium'',
             variant_description = ''Free with in-app purchases''\<rparr>),
          (''variant_b'', \<lparr>variant_name = ''Paid'',
             variant_description = ''One-time purchase ($2.99)''\<rparr>)]\<rparr>),
     (''screenshots_test'',
       \<lparr>test_id = ''screenshots_004'', test_name = ''Screenshot Count Test'',
        variants =
         [(''control'', \<lparr>variant_name = ''3 Screenshots'',
             variant_description = ''App store listing with 3 screenshots''\<rparr>),
          (''variant_a'', \<lparr>variant_name = ''5 Screenshots'',
             variant_description = ''App store listing with 5 screenshots''\<rparr>)]\<rparr>)]"

text \<open>
  A variant assignment (\<^verbatim>\<open>user_tests\<close>) is drawn from the catalog when it gives every
  test key of the catalog one of that test's variant keys.
\<close>

definition from_catalog :: "(string \<rightharpoonup> string) \<Rightarrow> bool" where
  "from_catalog user_tests =
     list_all
       (\<lambda>(test_key, info).
          case user_tests test_key of
            None \<Rightarrow> False
          | Some v \<Rightarrow> v \<in> set (map fst (variants info)))
       generate_test_variants"

subsection \<open>The conversion probability: \<^verbatim>\<open>calculate_conversion_probability\<close>\<close>

definition age_multipliers :: "string \<rightharpoonup> real" where
  "age_multipliers =
     map_of [(''18-24'', 1.2), (''25-34'', 1.1), (''35-44'', 1.0), (''45-54'', 0.9),
             (''55+'', 0.8)]"

definition device_multipliers :: "string \<rightharpoonup> real" where
  "device_multipliers =
     map_of [(''iPhone'', 1.0), (''iPad'', 0.9), (''Apple Watch'', 0.7), (''Mac'', 0.6)]"

text \<open>
  The body of the function up to its \<^verbatim>\<open>return\<close>: the value of \<^verbatim>\<open>base_prob\<close> that the
  last line clamps. The four subscripts \<^verbatim>\<open>user_tests[...]\<close> are looked up in the order
  the source reads them; each raises \<^verbatim>\<open>KeyError\<close> on an assignment without the key.
\<close>

definition base_prob_at_return ::
  "(string \<rightharpoonup> string) \<Rightarrow> string \<Rightarrow> string \<Rightarrow> py_error + real" where
  "base_prob_at_return user_tests age_group device_type =
    (case getitem user_tests ''icon_design_test'' of Inl err \<Rightarrow> Inl err | Inr icon \<Rightarrow>
    (case getitem user_tests ''description_test'' of Inl err \<Rightarrow> Inl err | Inr descr \<Rightarrow>
    (case getitem user_tests ''pricing_test'' of Inl err \<Rightarrow> Inl err | Inr pricing \<Rightarrow>
    (case getitem user_tests ''screenshots_test'' of Inl err \<Rightarrow> Inl err | Inr shots \<Rightarrow>
     (let base_prob = 0.15;
          base_prob =
            (if icon = ''variant_a'' then base_prob + 0.02
             else if icon = ''variant_b'' then base_prob + 0.035
             else base_prob);
          base_prob = (if descr = ''variant_a'' then base_prob + 0.025 else base_prob);
          base_prob =
            (if pricing = ''control'' then base_prob + 0.08
             else if pricing = ''variant_a'' then base_prob + 0.04
             else base_prob);
          base_prob = (if shots = ''variant_a'' then base_prob + 0.015 else base_prob);
          base_prob = base_prob * dict_get age_multipliers age_group 1.0;
          base_prob = base_prob * dict_get device_multipliers device_type 1.0
      in Inr base_prob)))))"

definition calculate_conversion_probability ::
  "(string \<rightharpoonup> string) \<Rightarrow> string \<Rightarrow> string \<Rightarrow> py_error + real" where
  "calculate_conversion_probability user_tests age_group device_type =
    (case base_prob_at_return user_tests age_group device_type of
       Inl err \<Rightarrow> Inl err
     | Inr base_prob \<Rightarrow> Inr (min 0.95 (max 0.01 base_prob)))"

subsection \<open>Built-in functions and the libraries\<close>

text \<open>\<^verbatim>\<open>int(x)\<close> of a float truncates towards zero.\<close>

definition py_int :: "real \<Rightarrow> int" where
  "py_int x = (if 0 \<le> x then \<lfloor>x\<rfloor> else \<lceil>x\<rceil>)"

text \<open>\<^verbatim>\<open>round(x, ndigits)\<close> rounds to the nearest multiple of \<open>10 ^ -ndigits\<close>, a tie to the even one.\<close>

definition round_half_even :: "real \<Rightarrow> int" where
  "round_half_even x =
     (let f = \<lfloor>x\<rfloor>; d = x - of_int f
      in if d < 1 / 2 then f else if 1 / 2 < d then f + 1 else if even f then f else f + 1)"

definition py_round :: "real \<Rightarrow> nat \<Rightarrow> real" where
  "py_round x ndigits = of_int (round_half_even (x * 10 ^ ndigits)) / 10 ^ ndigits"

text \<open>
  The simulator draws from three generators that lines 27 to 30 seed with 42 (Faker's,
  the \<^verbatim>\<open>random\<close> module's and NumPy's): their joint state is a value of type \<open>'r\<close>.
  \<^verbatim>\<open>uuid.uuid4()\<close> and \<^verbatim>\<open>datetime.now()\<close> read the operating system's entropy and clock,
  which no seed fixes: that environment is a value of type \<open>'e\<close>. The libraries are not
  part of the repository, so each call the simulator makes is a field of \<open>library\<close>: a
  function from the state before the call to the result and the state after it. The
  calls are taken to return: with the arguments the simulator passes, none of them is
  documented to raise.
  A \<^verbatim>\<open>datetime\<close> is its number of microseconds since 0001-01-01 00:00:00.
\<close>

record ('r, 'e) library =
  datetime_now :: "'e \<Rightarrow> int \<times> 'e"
  uuid4 :: "'e \<Rightarrow> string \<times> 'e"
  fake_date_time_between :: "int \<Rightarrow> int \<Rightarrow> 'r \<Rightarrow> int \<times> 'r"
  fake_company :: "'r \<Rightarrow> string \<times> 'r"
  fake_word :: "'r \<Rightarrow> string \<times> 'r"
  random_choices :: "string list \<Rightarrow> nat list \<Rightarrow> 'r \<Rightarrow> string \<times> 'r"
  random_choice :: "string list \<Rightarrow> 'r \<Rightarrow> string \<times> 'r"
  random_random :: "'r \<Rightarrow> real \<times> 'r"
  random_randint :: "int \<Rightarrow> int \<Rightarrow> 'r \<Rightarrow> int \<times> 'r"
  random_uniform :: "real \<Rightarrow> real \<Rightarrow> 'r \<Rightarrow> real \<times> 'r"
  np_random_normal :: "real \<Rightarrow> real \<Rightarrow> 'r \<Rightarrow> real \<times> 'r"
  str_title :: "string \<Rightarrow> string"

text \<open>
  \<open>uuid4\<close> is \<^verbatim>\<open>str(uuid.uuid4())\<close>, \<open>random_choices p w\<close> is
  \<^verbatim>\<open>random.choices(p, weights=w)[0]\<close>, \<open>str_title\<close> is \<^verbatim>\<open>str.title\<close>.

  \<^verbatim>\<open>timedelta(days=d)\<close> raises \<^verbatim>\<open>OverflowError\<close> beyond 999999999 days, and so does a
  \<^verbatim>\<open>datetime\<close> subtraction that leaves the years 1 to 9999.
\<close>

definition timedelta_days :: "int \<Rightarrow> py_error + int" where
  "timedelta_days d =
     (if 999999999 < \<bar>d\<bar> then Inl OverflowError else Inr (d * 86400000000))"

definition datetime_max :: int where
  "datetime_max = 3652059 * 86400000000 - 1"

definition datetime_sub :: "int \<Rightarrow> int \<Rightarrow> py_error + int" where
  "datetime_sub t delta =
     (if t - delta < 0 \<or> datetime_max < t - delta then Inl OverflowError
      else Inr (t - delta))"

subsection \<open>The simulator object: \<^verbatim>\<open>ABTestSimulator.__init__\<close>\<close>

record simulator =
  num_users :: int
  test_duration_days :: int
  start_date :: int
  end_date :: int

text \<open>
  The three lists \<^verbatim>\<open>__init__\<close> stores in the object are never assigned again: they are
  constants here.
\<close>

definition app_genres :: "string list" where
  "app_genres =
     [''Games'', ''Entertainment'', ''Education'', ''Photo & Video'',
      ''Music'', ''Social Networking'', ''Shopping'', ''Productivity'',
      ''Finance'', ''Sports'', ''Food & Drink'', ''Travel'', ''News'',
      ''Health & Fitness'', ''Utilities'', ''Weather'', ''Reference'']"

text \<open>The age groups are the list that line 111 draws from.\<close>

definition age_groups :: "string list" where
  "age_groups = [''18-24'', ''25-34'', ''35-44'', ''45-54'', ''55+'']"

definition device_types :: "string list" where
  "device_types = [''iPhone'', ''iPad'', ''Apple Watch'', ''Mac'']"

definition countries :: "string list" where
  "countries = [''US'', ''UK'', ''CA'', ''AU'', ''DE'', ''FR'', ''JP'', ''IN'', ''BR'', ''MX'']"

text \<open>
  \<^verbatim>\<open>__init__\<close> reads the clock twice: \<^verbatim>\<open>start_date\<close> is the first reading less the
  duration, \<^verbatim>\<open>end_date\<close> is the second reading. It checks neither argument.
\<close>

definition ABTestSimulator_init ::
  "('r, 'e) library \<Rightarrow> int \<Rightarrow> int \<Rightarrow> 'e \<Rightarrow> py_error + (simulator \<times> 'e)" where
  "ABTestSimulator_init L n days e =
     (let (now1, e) = datetime_now L e in
      (case timedelta_days days of Inl err \<Rightarrow> Inl err | Inr delta \<Rightarrow>
      (case datetime_sub now1 delta of Inl err \<Rightarrow> Inl err | Inr start \<Rightarrow>
       (let (now2, e) = datetime_now L e in
        Inr (\<lparr>num_users = n, test_duration_days = days,
              start_date = start, end_date = now2\<rparr>, e)))))"

subsection \<open>Session generation: \<^verbatim>\<open>generate_user_sessions\<close>\<close>

text \<open>
  A row of session data. Its rating cell has the type \<open>'c\<close>: in the dictionary that the
  generator appends it is \<^verbatim>\<open>None\<close> or a float; in the \<^verbatim>\<open>DataFrame\<close> and in the table
  \<^verbatim>\<open>ab_test_sessions\<close> it is missing, a number or \<^verbatim>\<open>NaN\<close>.
\<close>

datatype number = Num real | NaN

record 'c session_record =
  user_id :: string
  session_date :: int
  app_name :: string
  app_genre :: string
  age_group :: string
  device_type :: string
  country :: string
  icon_design_variant :: string
  description_variant :: string
  pricing_variant :: string
  screenshots_variant :: string
  time_spent_seconds :: int
  converted :: bool
  rating :: 'c
  session_id :: string

type_synonym session = "real option session_record"

type_synonym table_row = "number option session_record"

text \<open>Lines 130 to 136: one \<^verbatim>\<open>random.choice\<close> over the variant keys of each test, in catalog order.\<close>

fun assign_variants ::
  "('r, 'e) library \<Rightarrow> (string \<times> test_info) list \<Rightarrow> (string \<rightharpoonup> string) \<Rightarrow> 'r \<Rightarrow>
     (string \<rightharpoonup> string) \<times> 'r" where
  "assign_variants L [] user_tests r = (user_tests, r)"
| "assign_variants L ((test_key, info) # tests) user_tests r =
     (let variant_keys = map fst (variants info);
          (assigned_variant, r) = random_choice L variant_keys r
      in assign_variants L tests (user_tests(test_key \<mapsto> assigned_variant)) r)"

text \<open>Lines 143 to 149: the time spent on the page, in seconds.\<close>

definition simulate_time_spent ::
  "('r, 'e) library \<Rightarrow> (string \<rightharpoonup> string) \<Rightarrow> 'r \<Rightarrow> py_error + (int \<times> 'r)" where
  "simulate_time_spent L user_tests r =
    (case getitem user_tests ''description_test'' of Inl err \<Rightarrow> Inl err | Inr descr \<Rightarrow>
     (let base_time = 45;
          (base_time, r) =
            (if descr = ''variant_a''
             then (let (b, r) = random_randint L 10 30 r in (base_time + b, r))
             else (base_time, r))
      in
      (case getitem user_tests ''screenshots_test'' of Inl err \<Rightarrow> Inl err | Inr shots \<Rightarrow>
       (let (base_time, r) =
              (if shots = ''variant_a''
               then (let (b, r) = random_randint L 5 20 r in (base_time + b, r))
               else (base_time, r));
            (x, r) = np_random_normal L (of_int base_time) 15 r
        in Inr (max 5 (py_int x), r)))))"

text \<open>Lines 152 to 162: the rating, \<^verbatim>\<open>None\<close> unless the user converted.\<close>

definition simulate_rating ::
  "('r, 'e) library \<Rightarrow> (string \<rightharpoonup> string) \<Rightarrow> bool \<Rightarrow> 'r \<Rightarrow>
     py_error + (real option \<times> 'r)" where
  "simulate_rating L user_tests conv r =
    (if conv then
      (case getitem user_tests ''icon_design_test'' of Inl err \<Rightarrow> Inl err | Inr icon \<Rightarrow>
       (let base_rating = 4.0;
            (base_rating, r) =
              (if icon \<in> set [''variant_a'', ''variant_b'']
               then (let (u, r) = random_uniform L (- 0.2) 0.4 r in (base_rating + u, r))
               else (base_rating, r))
        in
        (case getitem user_tests ''pricing_test'' of Inl err \<Rightarrow> Inl err | Inr pricing \<Rightarrow>
         (let (base_rating, r) =
                (if pricing = ''control''
                 then (let (u, r) = random_uniform L (- 0.3) 0.1 r in (base_rating + u, r))
                 else (base_rating, r));
              (u, r) = random_uniform L (- 1.0) 1.0 r;
              rating = min 5.0 (max 1.0 (base_rating + u));
              rating = py_round rating 1
          in Inr (Some rating, r)))))
     else Inr (None, r))"

text \<open>Lines 164 to 180: the dictionary appended to \<^verbatim>\<open>sessions\<close>; its last entry draws the session id.\<close>

definition session_row ::
  "('r, 'e) library \<Rightarrow> (string \<rightharpoonup> string) \<Rightarrow> string \<Rightarrow> int \<Rightarrow> string \<Rightarrow> string \<Rightarrow> string \<Rightarrow>
     string \<Rightarrow> string \<Rightarrow> int \<Rightarrow> bool \<Rightarrow> real option \<Rightarrow> 'e \<Rightarrow> py_error + (session \<times> 'e)" where
  "session_row L user_tests uid date aname genre age device ctry time_spent conv rat e =
    (case getitem user_tests ''icon_design_test'' of Inl err \<Rightarrow> Inl err | Inr icon \<Rightarrow>
    (case getitem user_tests ''description_test'' of Inl err \<Rightarrow> Inl err | Inr descr \<Rightarrow>
    (case getitem user_tests ''pricing_test'' of Inl err \<Rightarrow> Inl err | Inr pricing \<Rightarrow>
    (case getitem user_tests ''screenshots_test'' of Inl err \<Rightarrow> Inl err | Inr shots \<Rightarrow>
     (let (sid, e) = uuid4 L e in
      Inr (\<lparr>user_id = uid, session_date = date, app_name = aname, app_genre = genre,
            age_group = age, device_type = device, country = ctry,
            icon_design_variant = icon, description_variant = descr,
            pricing_variant = pricing, screenshots_variant = shots,
            time_spent_seconds = time_spent, converted = conv, rating = rat,
            session_id = sid\<rparr>, e))))))"

text \<open>The body of the loop of line 105: one user.\<close>

definition generate_session ::
  "('r, 'e) library \<Rightarrow> simulator \<Rightarrow> 'r \<times> 'e \<Rightarrow> py_error + (session \<times> 'r \<times> 'e)" where
  "generate_session L sim w =
    (let (r, e) = w;
         (uid, e) = uuid4 L e;
         (date, r) = fake_date_time_between L (start_date sim) (end_date sim) r;
         (age, r) = random_choices L age_groups [20, 35, 25, 15, 5] r;
         (device, r) = random_choices L device_types [60, 25, 10, 5] r;
         (ctry, r) = random_choices L countries [40, 15, 10, 8, 7, 6, 5, 4, 3, 2] r;
         (genre, r) = random_choice L app_genres r;
         (company, r) = fake_company L r;
         (word, r) = fake_word L r;
         aname = company @ '' '' @ str_title L word;
         tests = generate_test_variants;
         (user_tests, r) = assign_variants L tests Map.empty r
     in
     (case calculate_conversion_probability user_tests age device of
        Inl err \<Rightarrow> Inl err
      | Inr conversion_probability \<Rightarrow>
     (let (u, r) = random_random L r;
          conv = (u < conversion_probability)
      in
     (case simulate_time_spent L user_tests r of Inl err \<Rightarrow> Inl err | Inr (time_spent, r) \<Rightarrow>
     (case simulate_rating L user_tests conv r of Inl err \<Rightarrow> Inl err | Inr (rat, r) \<Rightarrow>
     (case session_row L user_tests uid date aname genre age device ctry time_spent conv rat e of
        Inl err \<Rightarrow> Inl err
      | Inr (s, e) \<Rightarrow> Inr (s, r, e)))))))"

text \<open>
  The loop \<^verbatim>\<open>for _ in range(self.num_users)\<close> runs \<open>nat (num_users sim)\<close> times: no time
  when the number is zero or negative. Each turn appends one row to \<^verbatim>\<open>sessions\<close>.
\<close>

fun sessions_loop ::
  "('r, 'e) library \<Rightarrow> simulator \<Rightarrow> nat \<Rightarrow> session list \<Rightarrow> 'r \<times> 'e \<Rightarrow>
     py_error + (session list \<times> 'r \<times> 'e)" where
  "sessions_loop L sim 0 sessions w = Inr (sessions, w)"
| "sessions_loop L sim (Suc k) sessions w =
     (case generate_session L sim w of
        Inl err \<Rightarrow> Inl err
      | Inr (s, w') \<Rightarrow> sessions_loop L sim k (sessions @ [s]) w')"

definition generate_user_sessions ::
  "('r, 'e) library \<Rightarrow> simulator \<Rightarrow> 'r \<times> 'e \<Rightarrow> py_error + (session list \<times> 'r \<times> 'e)" where
  "generate_user_sessions L sim w = sessions_loop L sim (nat (num_users sim)) [] w"

text \<open>
  A row with the two identifiers blanked: what is left of a row is what the seeded
  generators and the simulator object decide.
\<close>

definition without_ids :: "session \<Rightarrow> session" where
  "without_ids s = s\<lparr>user_id := [], session_id := []\<rparr>"


text \<open>
  What the loop body promises of the row it appends: the floor on the time spent, and a
  rating between 1 and 5 exactly when the user converted.
\<close>

definition row_ok :: "session \<Rightarrow> bool" where
  "row_ok s \<longleftrightarrow>
     5 \<le> time_spent_seconds s \<and> (rating s \<noteq> None \<longleftrightarrow> converted s)
     \<and> (\<forall>x. rating s = Some x \<longrightarrow> 1 \<le> x \<and> x \<le> 5)"

subsection \<open>The table: \<^verbatim>\<open>pd.DataFrame(sessions)\<close> and \<^verbatim>\<open>insert_session_data\<close>\<close>

definition frame_row :: "number option \<Rightarrow> session \<Rightarrow> table_row" where
  "frame_row cell s =
     \<lparr>user_id = user_id s, session_date = session_date s, app_name = app_name s,
      app_genre = app_genre s, age_group = age_group s, device_type = device_type s,
      country = country s, icon_design_variant = icon_design_variant s,
      description_variant = description_variant s, pricing_variant = pricing_variant s,
      screenshots_variant = screenshots_variant s,
      time_spent_seconds = time_spent_seconds s, converted = converted s,
      rating = cell, session_id = session_id s\<rparr>"

text \<open>
  Line 182 returns \<^verbatim>\<open>pd.DataFrame(sessions)\<close>. pandas infers the type of the rating column
  from its values: when at least one of them is a float the column is \<^verbatim>\<open>float64\<close>, and
  every \<^verbatim>\<open>None\<close> in it becomes \<^verbatim>\<open>NaN\<close>; when all of them are \<^verbatim>\<open>None\<close> the column keeps
  them. The other columns keep their values.
\<close>

definition DataFrame :: "session list \<Rightarrow> table_row list" where
  "DataFrame sessions =
     (if list_ex (\<lambda>s. rating s \<noteq> None) sessions
      then map (\<lambda>s. frame_row (case rating s of None \<Rightarrow> Some NaN | Some x \<Rightarrow> Some (Num x)) s)
             sessions
      else map (frame_row None) sessions)"

text \<open>
  Lines 338 to 348 send every row of the frame to the table that
  \<^verbatim>\<open>create_database_tables\<close> has just created empty. The driver writes \<^verbatim>\<open>None\<close> as
  \<^verbatim>\<open>NULL\<close> and a float \<^verbatim>\<open>nan\<close> as \<^verbatim>\<open>'NaN'::float\<close>, which a \<^verbatim>\<open>DECIMAL\<close> column stores as
  \<^verbatim>\<open>NaN\<close>; a rating of the generator has one decimal, which \<^verbatim>\<open>DECIMAL(2,1)\<close> stores as it
  is. So the table holds the rows of the frame.
\<close>

definition insert_session_data :: "table_row list \<Rightarrow> table_row list" where
  "insert_session_data df = df"

subsection \<open>The summary: the query of \<^verbatim>\<open>generate_summary_statistics\<close>\<close>

text \<open>
  The aggregation is SQL that PostgreSQL runs over the table \<^verbatim>\<open>ab_test_sessions\<close>, the
  list of its rows. The model is the result of the \<^verbatim>\<open>SELECT\<close>: one row for each distinct
  value of the grouping column (SQL leaves their order open), \<^verbatim>\<open>COUNT(*)\<close> the size of the
  group, \<^verbatim>\<open>SUM\<close> the sum over the group, and \<^verbatim>\<open>AVG\<close> over the values that are not \<^verbatim>\<open>NULL\<close>:
  \<^verbatim>\<open>NULL\<close> when there is none, \<^verbatim>\<open>NaN\<close> when one of them is \<^verbatim>\<open>NaN\<close>, their mean otherwise.
  How the \<^verbatim>\<open>DECIMAL\<close> columns of \<^verbatim>\<open>ab_test_summary\<close> round a number that is inserted is
  outside the model.
\<close>

record summary_row =
  summary_test_name :: string
  variant_key :: string
  total_users :: nat
  conversions :: int
  conversion_rate :: "number option"
  avg_time_spent :: "number option"
  avg_rating :: "number option"

fun number_value :: "number \<Rightarrow> real" where
  "number_value (Num x) = x"
| "number_value NaN = 0"

definition sql_avg :: "number option list \<Rightarrow> number option" where
  "sql_avg vs =
     (let present = List.map_filter (\<lambda>v. v) vs
      in if present = [] then None
         else if NaN \<in> set present then Some NaN
         else Some (Num (sum_list (map number_value present) / real (length present))))"

definition sql_group_by ::
  "(table_row \<Rightarrow> string) \<Rightarrow> table_row list \<Rightarrow> (string \<times> table_row list) list" where
  "sql_group_by col table =
     map (\<lambda>k. (k, filter (\<lambda>s. col s = k) table)) (remdups (map col table))"

definition summary_select ::
  "string \<Rightarrow> (table_row \<Rightarrow> string) \<Rightarrow> table_row list \<Rightarrow> summary_row list" where
  "summary_select tname col table =
     map (\<lambda>(k, g).
            \<lparr>summary_test_name = tname,
             variant_key = k,
             total_users = length g,
             conversions = sum_list (map (\<lambda>s. if converted s then 1 else 0) g),
             conversion_rate =
               sql_avg (map (\<lambda>s. Some (Num (if converted s then 1.0 else 0.0))) g),
             avg_time_spent = sql_avg (map (\<lambda>s. Some (Num (of_int (time_spent_seconds s)))) g),
             avg_rating = sql_avg (map rating g)\<rparr>)
         (sql_group_by col table)"

text \<open>The list \<^verbatim>\<open>tests\<close> of lines 361 to 366: a test's display name and its column.\<close>

definition summary_tests :: "(string \<times> (table_row \<Rightarrow> string)) list" where
  "summary_tests =
     [(''App Icon Design Test'', icon_design_variant),
      (''App Description Length Test'', description_variant),
      (''Pricing Strategy Test'', pricing_variant),
      (''Screenshot Count Test'', screenshots_variant)]"

text \<open>The rows the loop of line 368 inserts into \<^verbatim>\<open>ab_test_summary\<close>, one query for each test.\<close>

definition generate_summary_statistics :: "table_row list \<Rightarrow> summary_row list" where
  "generate_summary_statistics table =
     concat (map (\<lambda>(tname, col). summary_select tname col table) summary_tests)"

definition rows_of_test :: "string \<Rightarrow> summary_row list \<Rightarrow> summary_row list" where
  "rows_of_test tname rows = filter (\<lambda>row. summary_test_name row = tname) rows"

subsection \<open>The conversion probability as the specification words it\<close>

text \<open>
  Section 4.3 of the specification: a base rate of 0.15, for each test an additive delta
  keyed by the assigned variant (zero for a variant with no listed delta), then the
  age-bracket multiplier, then the device-category multiplier (both 1.0 for a value
  outside their tables), then one clamp to the interval from 0.01 to 0.95.
\<close>

definition spec_variant_delta :: "string \<Rightarrow> string \<Rightarrow> real" where
  "spec_variant_delta test_key v =
     (case map_of
        [((''icon_design_test'', ''variant_a''), 0.02),
         ((''icon_design_test'', ''variant_b''), 0.035),
         ((''description_test'', ''variant_a''), 0.025),
         ((''pricing_test'', ''control''), 0.08),
         ((''pricing_test'', ''variant_a''), 0.04),
         ((''screenshots_test'', ''variant_a''), 0.015)] (test_key, v) of
        None \<Rightarrow> 0
      | Some delta \<Rightarrow> delta)"

definition spec_age_multiplier :: "string \<Rightarrow> real" where
  "spec_age_multiplier ag =
     (if ag = ''18-24'' then 1.2 else if ag = ''25-34'' then 1.1
      else if ag = ''35-44'' then 1.0 else if ag = ''45-54'' then 0.9
      else if ag = ''55+'' then 0.8 else 1.0)"

definition spec_device_multiplier :: "string \<Rightarrow> real" where
  "spec_device_multiplier dt =
     (if dt = ''iPhone'' then 1.0 else if dt = ''iPad'' then 0.9
      else if dt = ''Apple Watch'' then 0.7 else if dt = ''Mac'' then 0.6 else 1.0)"

definition spec_probability :: "(string \<Rightarrow> string) \<Rightarrow> string \<Rightarrow> string \<Rightarrow> real" where
  "spec_probability assigned ag dt =
     (let additive =
            foldl (\<lambda>p test_key. p + spec_variant_delta test_key (assigned test_key)) 0.15
              (map fst generate_test_variants);
          scaled = (additive * spec_age_multiplier ag) * spec_device_multiplier dt
      in min 0.95 (max 0.01 scaled))"

subsection \<open>A concrete library and configuration\<close>

text \<open>
  A small deterministic instance of the library interface, on which the model runs:
  both states are counters, every call advances its counter by one.
\<close>

definition demo_unit :: "nat \<Rightarrow> real" where
  "demo_unit r = real ((r * 37 + 11) mod 100) / 100"

definition demo_pick :: "string list \<Rightarrow> nat \<Rightarrow> string" where
  "demo_pick xs r = (if xs = [] then [] else xs ! (r mod length xs))"

definition demo_library :: "(nat, nat) library" where
  "demo_library =
     \<lparr>datetime_now = (\<lambda>e. (63900000000000000 + int e, Suc e)),
      uuid4 = (\<lambda>e. (''uuid-'' @ replicate e (CHR ''x''), Suc e)),
      fake_date_time_between =
        (\<lambda>start stop r. (start + (stop - start) * int ((r * 37 + 11) mod 100) div 100, Suc r)),
      fake_company = (\<lambda>r. (''Acme Ltd'', Suc r)),
      fake_word = (\<lambda>r. (''alpha'', Suc r)),
      random_choices = (\<lambda>xs ws r. (demo_pick xs r, Suc r)),
      random_choice = (\<lambda>xs r. (demo_pick xs r, Suc r)),
      random_random = (\<lambda>r. (demo_unit r, Suc r)),
      random_randint = (\<lambda>a b r. (a + int (r mod nat (b - a + 1)), Suc r)),
      random_uniform = (\<lambda>a b r. (a + (b - a) * demo_unit r, Suc r)),
      np_random_normal = (\<lambda>mu sigma r. (mu + sigma * (4 * demo_unit r - 2), Suc r)),
      str_title = (\<lambda>w. w)\<rparr>"

definition demo_sim :: simulator where
  "demo_sim =
     \<lparr>num_users = 3, test_duration_days = 30, start_date = 1000000, end_date = 2000000\<rparr>"

definition demo_user_tests :: "string \<rightharpoonup> string" where
  "demo_user_tests =
     [''icon_design_test'' \<mapsto> ''variant_b'', ''description_test'' \<mapsto> ''variant_a'',
      ''pricing_test'' \<mapsto> ''control'', ''screenshots_test'' \<mapsto> ''variant_a'']"

definition demo_assigned :: "string \<Rightarrow> string" where
  "demo_assigned k = (case demo_user_tests k of None \<Rightarrow> [] | Some v \<Rightarrow> v)"

definition demo_paid_tests :: "string \<rightharpoonup> string" where
  "demo_paid_tests =
     [''icon_design_test'' \<mapsto> ''control'', ''description_test'' \<mapsto> ''control'',
      ''pricing_test'' \<mapsto> ''variant_b'', ''screenshots_test'' \<mapsto> ''control'']"

definition demo_sessions :: "session list" where
  "demo_sessions =
     [\<lparr>user_id = ''uuid-'', session_date = 1110000,
       app_name = ''Acme Ltd alpha'', app_genre = ''Music'',
       age_group = ''25-34'', device_type = ''Apple Watch'', country = ''AU'',
       icon_design_variant = ''variant_a'', description_variant = ''control'',
       pricing_variant = ''control'', screenshots_variant = ''control'',
       time_spent_seconds = 48, converted = True, rating = Some (9 / 2),
       session_id = ''uuid-x''\<rparr>,
      \<lparr>user_id = ''uuid-xx'', session_date = 1030000,
       app_name = ''Acme Ltd alpha'', app_genre = ''Photo & Video'',
       age_group = ''35-44'', device_type = ''Apple Watch'', country = ''MX'',
       icon_design_variant = ''variant_b'', description_variant = ''control'',
       pricing_variant = ''variant_a'', screenshots_variant = ''control'',
       time_spent_seconds = 43, converted = True, rating = Some (37 / 10),
       session_id = ''uuid-xxx''\<rparr>,
      \<lparr>user_id = ''uuid-xxxx'', session_date = 1580000,
       app_name = ''Acme Ltd alpha'', app_genre = ''Entertainment'',
       age_group = ''35-44'', device_type = ''iPad'', country = ''DE'',
       icon_design_variant = ''variant_b'', description_variant = ''variant_a'',
       pricing_variant = ''variant_a'', screenshots_variant = ''variant_a'',
       time_spent_seconds = 88, converted = False, rating = None,
       session_id = ''uuid-xxxxx''\<rparr>]"


text \<open>The table that the three demo sessions make, and summary rows of it.\<close>

definition demo_table :: "table_row list" where
  "demo_table = insert_session_data (DataFrame demo_sessions)"

definition demo_pricing_rows :: "summary_row list" where
  "demo_pricing_rows =
     rows_of_test ''Pricing Strategy Test'' (generate_summary_statistics demo_table)"

definition demo_screenshots_rows :: "summary_row list" where
  "demo_screenshots_rows =
     rows_of_test ''Screenshot Count Test'' (generate_summary_statistics demo_table)"

definition demo_icon_rows :: "summary_row list" where
  "demo_icon_rows =
     rows_of_test ''App Icon Design Test'' (generate_summary_statistics demo_table)"

section \<open>The conversion probability\<close>

lemma from_catalog_keys:
  assumes "from_catalog ut"
  obtains i d p s where
    "ut ''icon_design_test'' = Some i" "i \<in> {''control'', ''variant_a'', ''variant_b''}"
    "ut ''description_test'' = Some d" "d \<in> {''control'', ''variant_a''}"
    "ut ''pricing_test'' = Some p" "p \<in> {''control'', ''variant_a'', ''variant_b''}"
    "ut ''screenshots_test'' = Some s" "s \<in> {''control'', ''variant_a''}"
  using assms
  by (auto simp add: from_catalog_def generate_test_variants_def split: option.splits)

lemma demo_user_tests_from_catalog: "from_catalog demo_user_tests"
  by (simp add: from_catalog_def generate_test_variants_def demo_user_tests_def)

lemma demo_paid_tests_from_catalog: "from_catalog demo_paid_tests"
  by (simp add: from_catalog_def generate_test_variants_def demo_paid_tests_def)

text \<open>With its four keys present, the body is one arithmetic expression.\<close>

lemma base_prob_at_return_Inr:
  assumes "ut ''icon_design_test'' = Some i" "ut ''description_test'' = Some d"
    "ut ''pricing_test'' = Some p" "ut ''screenshots_test'' = Some s"
  shows "base_prob_at_return ut ag dt =
    Inr ((0.15
         + (if i = ''variant_a'' then 0.02 else if i = ''variant_b'' then 0.035 else 0)
         + (if d = ''variant_a'' then 0.025 else 0)
         + (if p = ''control'' then 0.08 else if p = ''variant_a'' then 0.04 else 0)
         + (if s = ''variant_a'' then 0.015 else 0))
        * dict_get age_multipliers ag 1.0 * dict_get device_multipliers dt 1.0)"
  using assms by (simp add: base_prob_at_return_def getitem_def Let_def)

lemma age_multiplier_bounds:
  "0.8 \<le> dict_get age_multipliers ag 1.0 \<and> dict_get age_multipliers ag 1.0 \<le> 1.2"
  by (simp add: dict_get_def age_multipliers_def)

lemma device_multiplier_bounds:
  "0.6 \<le> dict_get device_multipliers dt 1.0 \<and> dict_get device_multipliers dt 1.0 \<le> 1.0"
  by (simp add: dict_get_def device_multipliers_def)

lemma age_multiplier_spec: "dict_get age_multipliers ag 1.0 = spec_age_multiplier ag"
  by (simp add: dict_get_def age_multipliers_def spec_age_multiplier_def)

lemma device_multiplier_spec: "dict_get device_multipliers dt 1.0 = spec_device_multiplier dt"
  by (simp add: dict_get_def device_multipliers_def spec_device_multiplier_def)

text \<open>
  Claim C3. For every variant assignment drawn from the catalog and every age group and
  device type, known or not, \<^verbatim>\<open>calculate_conversion_probability\<close> returns a value, and
  the value lies in the closed interval from 0.01 to 0.95.
\<close>

theorem conversion_probability_in_range:
  assumes "from_catalog ut"
  shows "\<exists>p. calculate_conversion_probability ut ag dt = Inr p \<and> 0.01 \<le> p \<and> p \<le> 0.95"
proof -
  from assms obtain i d p s where
    "ut ''icon_design_test'' = Some i" "ut ''description_test'' = Some d"
    "ut ''pricing_test'' = Some p" "ut ''screenshots_test'' = Some s"
    by (rule from_catalog_keys)
  then obtain b where "base_prob_at_return ut ag dt = Inr b"
    using base_prob_at_return_Inr by blast
  then have "calculate_conversion_probability ut ag dt = Inr (min 0.95 (max 0.01 b))"
    by (simp only: calculate_conversion_probability_def sum.case)
  moreover have "(0.01::real) \<le> min 0.95 (max 0.01 b) \<and> min 0.95 (max 0.01 b) \<le> 0.95"
    by simp
  ultimately show ?thesis by blast
qed

theorem conversion_probability_in_range_witness:
  "from_catalog demo_user_tests \<and>
   (\<exists>p. calculate_conversion_probability demo_user_tests ''65+'' ''Vision Pro'' = Inr p
      \<and> 0.01 \<le> p \<and> p \<le> 0.95)"
  using conversion_probability_in_range [OF demo_user_tests_from_catalog, of "''65+''" "''Vision Pro''"]
    demo_user_tests_from_catalog
  by simp

lemma spec_additive:
  "foldl (\<lambda>p test_key. p + spec_variant_delta test_key (assigned test_key)) 0.15
      (map fst generate_test_variants) =
   0.15
     + (if assigned ''icon_design_test'' = ''variant_a'' then 0.02
        else if assigned ''icon_design_test'' = ''variant_b'' then 0.035 else 0)
     + (if assigned ''description_test'' = ''variant_a'' then 0.025 else 0)
     + (if assigned ''pricing_test'' = ''control'' then 0.08
        else if assigned ''pricing_test'' = ''variant_a'' then 0.04 else 0)
     + (if assigned ''screenshots_test'' = ''variant_a'' then 0.015 else 0)"
  by (simp add: generate_test_variants_def spec_variant_delta_def)

text \<open>
  Claim C5. On an assignment that gives every test of the catalog a variant, the function
  returns what the specification's order of computation gives: the base rate plus the
  additive deltas of the tests, times the age multiplier, times the device multiplier,
  clamped once at the end. It returns for every age group and device type: a value outside
  the age table or the device table has the multiplier 1.
\<close>

theorem conversion_probability_order:
  assumes "\<forall>k \<in> set (map fst generate_test_variants). user_tests k = Some (assigned k)"
  shows "calculate_conversion_probability user_tests ag dt = Inr (spec_probability assigned ag dt)
    \<and> (ag \<notin> set age_groups \<longrightarrow> spec_age_multiplier ag = 1)
    \<and> (dt \<notin> set device_types \<longrightarrow> spec_device_multiplier dt = 1)"
proof -
  from assms have keys:
    "user_tests ''icon_design_test'' = Some (assigned ''icon_design_test'')"
    "user_tests ''description_test'' = Some (assigned ''description_test'')"
    "user_tests ''pricing_test'' = Some (assigned ''pricing_test'')"
    "user_tests ''screenshots_test'' = Some (assigned ''screenshots_test'')"
    by (simp_all add: generate_test_variants_def)
  have "calculate_conversion_probability user_tests ag dt = Inr (spec_probability assigned ag dt)"
    unfolding calculate_conversion_probability_def base_prob_at_return_Inr [OF keys]
      spec_probability_def spec_additive age_multiplier_spec device_multiplier_spec
    by (simp only: sum.case Let_def)
  moreover have "ag \<notin> set age_groups \<longrightarrow> spec_age_multiplier ag = 1"
    by (simp add: spec_age_multiplier_def age_groups_def)
  moreover have "dt \<notin> set device_types \<longrightarrow> spec_device_multiplier dt = 1"
    by (simp add: spec_device_multiplier_def device_types_def)
  ultimately show ?thesis by blast
qed

theorem conversion_probability_order_witness:
  "calculate_conversion_probability demo_user_tests ''70+'' ''Mac''
     = Inr (spec_probability demo_assigned ''70+'' ''Mac'')
   \<and> calculate_conversion_probability demo_user_tests ''70+'' ''Mac'' = Inr 0.183
   \<and> ''70+'' \<notin> set age_groups \<and> spec_age_multiplier ''70+'' = 1
   \<and> ''Vision Pro'' \<notin> set device_types \<and> spec_device_multiplier ''Vision Pro'' = 1"
proof -
  have keys: "\<forall>k \<in> set (map fst generate_test_variants). demo_user_tests k = Some (demo_assigned k)"
    by (simp add: generate_test_variants_def demo_user_tests_def demo_assigned_def)
  have val: "calculate_conversion_probability demo_user_tests ''70+'' ''Mac'' = Inr 0.183"
    by (simp add: calculate_conversion_probability_def base_prob_at_return_def getitem_def
        demo_user_tests_def dict_get_def age_multipliers_def device_multipliers_def)
  have unknown: "''70+'' \<notin> set age_groups" "''Vision Pro'' \<notin> set device_types"
    by (simp_all add: age_groups_def device_types_def)
  show ?thesis
    using conversion_probability_order [OF keys, of "''70+''" "''Mac''"]
      conversion_probability_order [OF keys, of "''70+''" "''Vision Pro''"]
      val unknown
    by simp
qed

text \<open>
  Claim C10. On the inputs generation can reach (an assignment drawn from the catalog, one
  of the five age groups, one of the four device types) the value of \<^verbatim>\<open>base_prob\<close> before
  the clamp lies between 0.072 and 0.366, so the clamp returns it unchanged, and the result
  is neither 0.01 nor 0.95.
\<close>

theorem reachable_probability_unclamped:
  assumes "from_catalog ut" and "ag \<in> set age_groups" and "dt \<in> set device_types"
  shows "\<exists>b. base_prob_at_return ut ag dt = Inr b \<and> 0.072 \<le> b \<and> b \<le> 0.366
           \<and> calculate_conversion_probability ut ag dt = Inr b \<and> b \<noteq> 0.01 \<and> b \<noteq> 0.95"
proof -
  from assms(1) obtain i d p s where keys:
    "ut ''icon_design_test'' = Some i" "ut ''description_test'' = Some d"
    "ut ''pricing_test'' = Some p" "ut ''screenshots_test'' = Some s"
    by (rule from_catalog_keys)
  define S :: real where "S = 0.15
         + (if i = ''variant_a'' then 0.02 else if i = ''variant_b'' then 0.035 else 0)
         + (if d = ''variant_a'' then 0.025 else 0)
         + (if p = ''control'' then 0.08 else if p = ''variant_a'' then 0.04 else 0)
         + (if s = ''variant_a'' then 0.015 else 0)"
  define A where "A = dict_get age_multipliers ag 1.0"
  define D where "D = dict_get device_multipliers dt 1.0"
  define b where "b = S * A * D"
  have b: "base_prob_at_return ut ag dt = Inr b"
    unfolding b_def S_def A_def D_def by (rule base_prob_at_return_Inr [OF keys])
  have S: "0.15 \<le> S" "S \<le> 0.305"
    by (simp_all add: S_def)
  have A: "0.8 \<le> A" "A \<le> 1.2"
    using age_multiplier_bounds [of ag] by (simp_all add: A_def)
  have D: "0.6 \<le> D" "D \<le> 1"
    using device_multiplier_bounds [of dt] by (simp_all add: D_def)
  have "0.15 * 0.8 \<le> S * A"
    using S(1) A(1) by (intro mult_mono) simp_all
  then have SA_lo: "0.12 \<le> S * A" by simp
  have "S * A \<le> 0.305 * 1.2"
    using S A by (intro mult_mono) simp_all
  then have SA_hi: "S * A \<le> 0.366" by simp
  have "0.12 * 0.6 \<le> S * A * D"
    using SA_lo D(1) by (intro mult_mono) simp_all
  then have lo: "0.072 \<le> b" by (simp add: b_def)
  have "S * A * D \<le> 0.366 * 1"
    using SA_hi SA_lo D by (intro mult_mono) simp_all
  then have hi: "b \<le> 0.366" by (simp add: b_def)
  have clamp: "min 0.95 (max 0.01 b) = b"
    using lo hi by simp
  have "calculate_conversion_probability ut ag dt = Inr b"
    by (simp only: calculate_conversion_probability_def b sum.case clamp)
  moreover have "b \<noteq> 0.01" "b \<noteq> 0.95"
    using lo hi by simp_all
  ultimately show ?thesis
    using b lo hi by blast
qed

theorem reachable_probability_unclamped_witness:
  "from_catalog demo_paid_tests \<and> ''55+'' \<in> set age_groups \<and> ''Mac'' \<in> set device_types
   \<and> base_prob_at_return demo_paid_tests ''55+'' ''Mac'' = Inr 0.072
   \<and> calculate_conversion_probability demo_paid_tests ''55+'' ''Mac'' = Inr 0.072"
proof -
  have mem: "''55+'' \<in> set age_groups" "''Mac'' \<in> set device_types"
    by (simp_all add: age_groups_def device_types_def)
  have val: "base_prob_at_return demo_paid_tests ''55+'' ''Mac'' = Inr 0.072"
    by (simp add: base_prob_at_return_def getitem_def
        demo_paid_tests_def dict_get_def age_multipliers_def device_multipliers_def)
  show ?thesis
    using reachable_probability_unclamped [OF demo_paid_tests_from_catalog mem]
      demo_paid_tests_from_catalog mem val
    by auto
qed

section \<open>Session generation\<close>

text \<open>The loop of lines 133 to 136 gives every test key of the catalog a value.\<close>

lemma assign_variants_keys:
  "fst (assign_variants L tests ut r) k = None \<longleftrightarrow> ut k = None \<and> k \<notin> fst ` set tests"
proof (induction tests arbitrary: ut r)
  case Nil
  then show ?case by simp
next
  case (Cons t tests)
  obtain test_key info where t: "t = (test_key, info)" by (cases t)
  show ?case
    unfolding t by (auto simp add: Let_def Cons.IH split: prod.splits)
qed

lemma assigned_all_keys:
  assumes "assign_variants L generate_test_variants Map.empty r = (ut, r')"
  shows "\<exists>i d p s. ut ''icon_design_test'' = Some i \<and> ut ''description_test'' = Some d
     \<and> ut ''pricing_test'' = Some p \<and> ut ''screenshots_test'' = Some s"
proof -
  have "ut k \<noteq> None" if "k \<in> fst ` set generate_test_variants" for k
    using assign_variants_keys [of L generate_test_variants Map.empty r k] that assms by simp
  then have "ut ''icon_design_test'' \<noteq> None" "ut ''description_test'' \<noteq> None"
    "ut ''pricing_test'' \<noteq> None" "ut ''screenshots_test'' \<noteq> None"
    by (simp_all add: generate_test_variants_def)
  then show ?thesis by auto
qed

lemma simulate_time_spent_Inr:
  assumes "ut ''description_test'' = Some d" "ut ''screenshots_test'' = Some s"
  shows "\<exists>t r'. simulate_time_spent L ut r = Inr (t, r') \<and> 5 \<le> t"
  using assms
  by (simp add: simulate_time_spent_def getitem_def Let_def split: prod.splits)

lemma round_half_even_lower: "of_int a \<le> x \<Longrightarrow> a \<le> round_half_even x"
proof -
  assume "of_int a \<le> x"
  then have "a \<le> \<lfloor>x\<rfloor>" by (simp add: le_floor_iff)
  then show ?thesis by (simp add: round_half_even_def Let_def)
qed

lemma round_half_even_upper: "x \<le> of_int b \<Longrightarrow> round_half_even x \<le> b"
proof -
  assume xb: "x \<le> of_int b"
  then have fl: "\<lfloor>x\<rfloor> \<le> b" by (simp add: floor_le_iff)
  show ?thesis
  proof (cases "x - of_int \<lfloor>x\<rfloor> < 1 / 2")
    case True
    then show ?thesis using fl by (simp add: round_half_even_def Let_def)
  next
    case False
    then have "of_int \<lfloor>x\<rfloor> < x" by simp
    with xb have "(of_int \<lfloor>x\<rfloor> :: real) < of_int b" by linarith
    then have "\<lfloor>x\<rfloor> < b" by simp
    then show ?thesis by (simp add: round_half_even_def Let_def)
  qed
qed

lemma rating_in_range:
  "1 \<le> py_round (min 5.0 (max 1.0 x)) 1 \<and> py_round (min 5.0 (max 1.0 x)) 1 \<le> 5"
proof -
  define y :: real where "y = min 5.0 (max 1.0 x)"
  have y: "1 \<le> y" "y \<le> 5" by (simp_all add: y_def)
  have "10 \<le> round_half_even (y * 10)"
    using y by (intro round_half_even_lower) simp
  moreover have "round_half_even (y * 10) \<le> 50"
    using y by (intro round_half_even_upper) simp
  ultimately show ?thesis
    unfolding y_def [symmetric] py_round_def by (simp add: field_simps)
qed

lemma simulate_rating_Inr:
  assumes "ut ''icon_design_test'' = Some i" "ut ''pricing_test'' = Some p"
  shows "\<exists>rat r'. simulate_rating L ut conv r = Inr (rat, r')
           \<and> (rat \<noteq> None \<longleftrightarrow> conv) \<and> (\<forall>x. rat = Some x \<longrightarrow> 1 \<le> x \<and> x \<le> 5)"
  using assms rating_in_range
  by (simp add: simulate_rating_def getitem_def Let_def split: prod.splits)

lemma row_ok_without_ids: "row_ok (without_ids s) = row_ok s"
  by (simp add: row_ok_def without_ids_def)

text \<open>
  One turn of the loop always returns a row. The row and the generator state after it
  depend on the generator state before it; the environment only supplies the two
  identifiers.
\<close>

lemma generate_session_result:
  "\<exists>s r'. row_ok s \<and> (\<forall>e. generate_session L sim (r, e) =
      Inr (s\<lparr>user_id := fst (uuid4 L e), session_id := fst (uuid4 L (snd (uuid4 L e)))\<rparr>,
           r', snd (uuid4 L (snd (uuid4 L e)))))"
proof -
  obtain date r1 where c1: "fake_date_time_between L (start_date sim) (end_date sim) r = (date, r1)"
    by fastforce
  obtain age r2 where c2: "random_choices L age_groups [20, 35, 25, 15, 5] r1 = (age, r2)"
    by fastforce
  obtain device r3 where c3: "random_choices L device_types [60, 25, 10, 5] r2 = (device, r3)"
    by fastforce
  obtain ctry r4 where c4:
    "random_choices L countries [40, 15, 10, 8, 7, 6, 5, 4, 3, 2] r3 = (ctry, r4)"
    by fastforce
  obtain genre r5 where c5: "random_choice L app_genres r4 = (genre, r5)"
    by fastforce
  obtain company r6 where c6: "fake_company L r5 = (company, r6)"
    by fastforce
  obtain word r7 where c7: "fake_word L r6 = (word, r7)"
    by fastforce
  obtain ut r8 where c8: "assign_variants L generate_test_variants Map.empty r7 = (ut, r8)"
    by fastforce
  from assigned_all_keys [OF c8] obtain i d p v where keys:
    "ut ''icon_design_test'' = Some i" "ut ''description_test'' = Some d"
    "ut ''pricing_test'' = Some p" "ut ''screenshots_test'' = Some v"
    by blast
  obtain cp where c9: "calculate_conversion_probability ut age device = Inr cp"
    using base_prob_at_return_Inr [OF keys]
    by (simp add: calculate_conversion_probability_def)
  obtain u r9 where c10: "random_random L r8 = (u, r9)"
    by fastforce
  obtain t r10 where c11: "simulate_time_spent L ut r9 = Inr (t, r10)" and t: "5 \<le> t"
    using simulate_time_spent_Inr [OF keys(2) keys(4), of L r9] by blast
  obtain rat r11 where c12: "simulate_rating L ut (u < cp) r10 = Inr (rat, r11)"
    and rat: "rat \<noteq> None \<longleftrightarrow> u < cp" "\<forall>x. rat = Some x \<longrightarrow> 1 \<le> x \<and> x \<le> 5"
    using simulate_rating_Inr [OF keys(1) keys(3), of L "u < cp" r10] by blast
  define s where "s =
    \<lparr>user_id = [], session_date = date, app_name = company @ '' '' @ str_title L word,
     app_genre = genre, age_group = age, device_type = device, country = ctry,
     icon_design_variant = i, description_variant = d, pricing_variant = p,
     screenshots_variant = v, time_spent_seconds = t, converted = (u < cp), rating = rat,
     session_id = []\<rparr>"
  have "row_ok s"
    using t rat by (simp add: row_ok_def s_def)
  moreover have "generate_session L sim (r, e) =
      Inr (s\<lparr>user_id := fst (uuid4 L e), session_id := fst (uuid4 L (snd (uuid4 L e)))\<rparr>,
           r11, snd (uuid4 L (snd (uuid4 L e))))" for e
    by (simp add: generate_session_def session_row_def getitem_def keys
        c1 c2 c3 c4 c5 c6 c7 c8 c9 c10 c11 c12 s_def Let_def case_prod_beta)
  ultimately show ?thesis by blast
qed

lemma sessions_loop_result:
  "\<exists>ss r'. length ss = k \<and> (\<forall>s \<in> set ss. row_ok s) \<and>
     (\<forall>e acc. \<exists>ss' e'. sessions_loop L sim k acc (r, e) = Inr (acc @ ss', r', e')
        \<and> map without_ids ss' = ss)"
proof (induction k arbitrary: r)
  case 0
  then show ?case by simp
next
  case (Suc k)
  obtain s r1 where s: "row_ok s" and step: "\<And>e. generate_session L sim (r, e) =
      Inr (s\<lparr>user_id := fst (uuid4 L e), session_id := fst (uuid4 L (snd (uuid4 L e)))\<rparr>,
           r1, snd (uuid4 L (snd (uuid4 L e))))"
    using generate_session_result [of L sim r] by blast
  obtain ss r' where ss: "length ss = k" "\<forall>s \<in> set ss. row_ok s"
    and loop: "\<And>e acc. \<exists>ss' e'. sessions_loop L sim k acc (r1, e) = Inr (acc @ ss', r', e')
        \<and> map without_ids ss' = ss"
    using Suc.IH [of r1] by blast
  have "\<exists>ss' e'. sessions_loop L sim (Suc k) acc (r, e) = Inr (acc @ ss', r', e')
        \<and> map without_ids ss' = without_ids s # ss" for e acc
  proof -
    define s' where
      "s' = s\<lparr>user_id := fst (uuid4 L e), session_id := fst (uuid4 L (snd (uuid4 L e)))\<rparr>"
    obtain ss' e' where
      "sessions_loop L sim k (acc @ [s']) (r1, snd (uuid4 L (snd (uuid4 L e))))
         = Inr ((acc @ [s']) @ ss', r', e')" and "map without_ids ss' = ss"
      using loop by blast
    moreover have "without_ids s' = without_ids s"
      by (simp add: s'_def without_ids_def)
    ultimately have "sessions_loop L sim (Suc k) acc (r, e) = Inr (acc @ (s' # ss'), r', e')
        \<and> map without_ids (s' # ss') = without_ids s # ss"
      by (simp add: step s'_def)
    then show ?thesis by (intro exI [of _ "s' # ss'"] exI [of _ e'])
  qed
  moreover have "length (without_ids s # ss) = Suc k"
    using ss(1) by simp
  moreover have "\<forall>x \<in> set (without_ids s # ss). row_ok x"
    using ss(2) s by (simp add: row_ok_without_ids)
  ultimately show ?case by blast
qed

lemma generate_user_sessions_result:
  "\<exists>ss r'. length ss = nat (num_users sim) \<and> (\<forall>s \<in> set ss. row_ok s) \<and>
     (\<forall>e. \<exists>ss' e'. generate_user_sessions L sim (r, e) = Inr (ss', r', e')
        \<and> map without_ids ss' = ss)"
proof -
  obtain ss r' where "length ss = nat (num_users sim)" "\<forall>s \<in> set ss. row_ok s"
    and loop: "\<And>e acc. \<exists>ss' e'. sessions_loop L sim (nat (num_users sim)) acc (r, e)
        = Inr (acc @ ss', r', e') \<and> map without_ids ss' = ss"
    using sessions_loop_result [of "nat (num_users sim)" L sim r] by blast
  moreover have "\<exists>ss' e'. generate_user_sessions L sim (r, e) = Inr (ss', r', e')
        \<and> map without_ids ss' = ss" for e
    using loop [of "[]" e] by (simp add: generate_user_sessions_def)
  ultimately show ?thesis by blast
qed

lemma generated_sessions_ok:
  assumes "generate_user_sessions L sim w = Inr (ss, w')"
  shows "length ss = nat (num_users sim) \<and> (\<forall>s \<in> set ss. row_ok s)"
proof -
  obtain r e where w: "w = (r, e)" by (cases w)
  obtain ss0 r' where len: "length ss0 = nat (num_users sim)" and ok: "\<forall>s \<in> set ss0. row_ok s"
    and run: "\<And>e. \<exists>ss' e'. generate_user_sessions L sim (r, e) = Inr (ss', r', e')
        \<and> map without_ids ss' = ss0"
    using generate_user_sessions_result [of sim L r] by blast
  from run [of e] assms w have m: "map without_ids ss = ss0" by auto
  have "length ss = nat (num_users sim)"
    using len m by auto
  moreover have "row_ok s" if "s \<in> set ss" for s
  proof -
    from that m have "without_ids s \<in> set ss0" by auto
    with ok have "row_ok (without_ids s)" by blast
    then show ?thesis by (simp add: row_ok_without_ids)
  qed
  ultimately show ?thesis by blast
qed

text \<open>A run of three users on the concrete library.\<close>

lemma demo_run:
  "generate_user_sessions demo_library demo_sim (0, 0) = Inr (demo_sessions, 46, 6)"
  by code_simp



text \<open>
  Claim C6. Every row that \<^verbatim>\<open>generate_user_sessions\<close> returns has an integer
  \<^verbatim>\<open>time_spent_seconds\<close> of at least 5, whatever the noise and the bonuses drawn.
\<close>

theorem time_spent_at_least_5:
  assumes "generate_user_sessions L sim w = Inr (sessions, w')" and "s \<in> set sessions"
  shows "5 \<le> time_spent_seconds s"
  using generated_sessions_ok [OF assms(1)] assms(2) by (simp add: row_ok_def)

theorem time_spent_at_least_5_witness:
  "generate_user_sessions demo_library demo_sim (0, 0) = Inr (demo_sessions, 46, 6)
   \<and> demo_sessions ! 1 \<in> set demo_sessions
   \<and> time_spent_seconds (demo_sessions ! 1) = 43
   \<and> 5 \<le> time_spent_seconds (demo_sessions ! 1)"
proof -
  have mem: "demo_sessions ! 1 \<in> set demo_sessions"
    by (simp add: demo_sessions_def)
  have "time_spent_seconds (demo_sessions ! 1) = 43"
    by (simp add: demo_sessions_def)
  then show ?thesis
    using time_spent_at_least_5 [OF demo_run mem] demo_run mem by simp
qed






text \<open>
  Claim C2 says that a negative population size, and any non-positive population size or
  window duration, is rejected with an error before anything is sampled. Neither
  \<^verbatim>\<open>__init__\<close> nor \<^verbatim>\<open>generate_user_sessions\<close> checks its configuration: a population of
  \<open>-1\<close> over a window of 0 days constructs the simulator, and generation returns the empty
  sequence without an error.
\<close>

theorem negative_population_returns_empty:
  "ABTestSimulator_init demo_library (- 1) 0 0 =
     Inr (\<lparr>num_users = - 1, test_duration_days = 0,
           start_date = 63900000000000000, end_date = 63900000000000001\<rparr>, 2)
   \<and> generate_user_sessions demo_library
       \<lparr>num_users = - 1, test_duration_days = 0,
        start_date = 63900000000000000, end_date = 63900000000000001\<rparr> (0, 2)
     = Inr ([], 0, 2)"
  by (simp add: ABTestSimulator_init_def demo_library_def timedelta_days_def datetime_sub_def
      datetime_max_def generate_user_sessions_def)

text \<open>
  Claim C2, amended. A non-positive population size is not rejected: whenever the
  constructor returns a simulator for a population size \<open>n \<le> 0\<close>, over a window of any
  duration, generation returns the empty sequence without raising and without drawing
  from the generators or the environment.
\<close>

theorem nonpositive_population_not_rejected:
  assumes "n \<le> 0" and "ABTestSimulator_init L n days e = Inr (sim, e')"
  shows "generate_user_sessions L sim (r, e') = Inr ([], r, e')"
proof -
  from assms(2) have "num_users sim = n"
    by (auto simp add: ABTestSimulator_init_def Let_def split: prod.splits sum.splits)
  with assms(1) show ?thesis
    by (simp add: generate_user_sessions_def)
qed

theorem nonpositive_population_not_rejected_witness:
  "(- 5 :: int) \<le> 0
   \<and> ABTestSimulator_init demo_library (- 5) (- 7) 0 =
     Inr (\<lparr>num_users = - 5, test_duration_days = - 7,
           start_date = 63900604800000000, end_date = 63900000000000001\<rparr>, 2)
   \<and> generate_user_sessions demo_library
       \<lparr>num_users = - 5, test_duration_days = - 7,
        start_date = 63900604800000000, end_date = 63900000000000001\<rparr> (0, 2)
     = Inr ([], 0, 2)"
proof -
  have init: "ABTestSimulator_init demo_library (- 5) (- 7) 0 =
     Inr (\<lparr>num_users = - 5, test_duration_days = - 7,
           start_date = 63900604800000000, end_date = 63900000000000001\<rparr>, 2)"
    by (simp add: ABTestSimulator_init_def demo_library_def timedelta_days_def datetime_sub_def
      datetime_max_def)
  have n: "(- 5 :: int) \<le> 0" by simp
  show ?thesis
    using nonpositive_population_not_rejected [OF n init, of 0] init by simp
qed

section \<open>The summary\<close>

lemma sum_list_indicator:
  "distinct ks \<Longrightarrow>
     sum_list (map (\<lambda>k. if a = k then c else 0) ks)
       = (if a \<in> set ks then c else (0 :: 'b :: comm_monoid_add))"
  by (induction ks) auto

text \<open>Summing a quantity group by group, over distinct keys that cover the table, sums it over the table.\<close>

lemma sum_list_over_groups:
  fixes g :: "'a \<Rightarrow> 'b :: comm_monoid_add"
  assumes "distinct ks" and "f ` set xs \<subseteq> set ks"
  shows "sum_list (map (\<lambda>k. sum_list (map g (filter (\<lambda>s. f s = k) xs))) ks)
           = sum_list (map g xs)"
  using assms(2)
proof (induction xs)
  case Nil
  then show ?case by simp
next
  case (Cons x xs)
  have "sum_list (map (\<lambda>k. sum_list (map g (filter (\<lambda>s. f s = k) (x # xs)))) ks)
      = sum_list (map (\<lambda>k. (if f x = k then g x else 0)
            + sum_list (map g (filter (\<lambda>s. f s = k) xs))) ks)"
    by (intro arg_cong [where f = sum_list] map_cong) auto
  also have "\<dots> = sum_list (map (\<lambda>k. if f x = k then g x else 0) ks)
      + sum_list (map (\<lambda>k. sum_list (map g (filter (\<lambda>s. f s = k) xs))) ks)"
    by (simp add: sum_list_addf)
  also have "\<dots> = g x + sum_list (map g xs)"
    using Cons assms(1) by (simp add: sum_list_indicator)
  finally show ?case by simp
qed

lemma summary_select_total_users:
  "sum_list (map total_users (summary_select tname col table)) = length table"
proof -
  have "sum_list (map total_users (summary_select tname col table))
      = sum_list (map (\<lambda>k. sum_list (map (\<lambda>s. 1 :: nat) (filter (\<lambda>s. col s = k) table)))
          (remdups (map col table)))"
    by (simp add: summary_select_def sql_group_by_def comp_def sum_list_triv)
  also have "\<dots> = sum_list (map (\<lambda>s. 1 :: nat) table)"
    by (rule sum_list_over_groups) simp_all
  finally show ?thesis by (simp add: sum_list_triv)
qed

lemma summary_select_conversions:
  "sum_list (map conversions (summary_select tname col table))
     = int (length (filter converted table))"
proof -
  have "sum_list (map conversions (summary_select tname col table))
      = sum_list (map (\<lambda>k. sum_list (map (\<lambda>s. if converted s then 1 else 0 :: int)
            (filter (\<lambda>s. col s = k) table))) (remdups (map col table)))"
    by (simp add: summary_select_def sql_group_by_def comp_def)
  also have "\<dots> = sum_list (map (\<lambda>s. if converted s then 1 else 0 :: int) table)"
    by (rule sum_list_over_groups) simp_all
  also have "\<dots> = int (length (filter converted table))"
    by (induction table) simp_all
  finally show ?thesis .
qed

lemma summary_select_keys:
  "map variant_key (summary_select tname col table) = remdups (map col table)"
  by (simp add: summary_select_def sql_group_by_def comp_def)

lemma summary_select_names:
  "filter (\<lambda>row. summary_test_name row = t) (summary_select tname col table)
     = (if t = tname then summary_select tname col table else [])"
  by (simp add: summary_select_def sql_group_by_def comp_def)

text \<open>The four display names differ, so the rows of a test are the rows of its own query.\<close>

lemma rows_of_test_select:
  assumes "(tname, col) \<in> set summary_tests"
  shows "rows_of_test tname (generate_summary_statistics table) = summary_select tname col table"
  using assms
  by (auto simp add: rows_of_test_def generate_summary_statistics_def summary_tests_def
      summary_select_names)

lemma demo_table_eq:
  "demo_table =
     [\<lparr>user_id = ''uuid-'', session_date = 1110000,
       app_name = ''Acme Ltd alpha'', app_genre = ''Music'',
       age_group = ''25-34'', device_type = ''Apple Watch'', country = ''AU'',
       icon_design_variant = ''variant_a'', description_variant = ''control'',
       pricing_variant = ''control'', screenshots_variant = ''control'',
       time_spent_seconds = 48, converted = True, rating = Some (Num 4.5),
       session_id = ''uuid-x''\<rparr>,
      \<lparr>user_id = ''uuid-xx'', session_date = 1030000,
       app_name = ''Acme Ltd alpha'', app_genre = ''Photo & Video'',
       age_group = ''35-44'', device_type = ''Apple Watch'', country = ''MX'',
       icon_design_variant = ''variant_b'', description_variant = ''control'',
       pricing_variant = ''variant_a'', screenshots_variant = ''control'',
       time_spent_seconds = 43, converted = True, rating = Some (Num 3.7),
       session_id = ''uuid-xxx''\<rparr>,
      \<lparr>user_id = ''uuid-xxxx'', session_date = 1580000,
       app_name = ''Acme Ltd alpha'', app_genre = ''Entertainment'',
       age_group = ''35-44'', device_type = ''iPad'', country = ''DE'',
       icon_design_variant = ''variant_b'', description_variant = ''variant_a'',
       pricing_variant = ''variant_a'', screenshots_variant = ''variant_a'',
       time_spent_seconds = 88, converted = False, rating = Some NaN,
       session_id = ''uuid-xxxxx''\<rparr>]"
  by (simp add: demo_table_def insert_session_data_def DataFrame_def frame_row_def
      demo_sessions_def del: not_None_eq)

lemma demo_pricing_keys:
  "map variant_key demo_pricing_rows = [''control'', ''variant_a'']"
  by (simp add: demo_pricing_rows_def rows_of_test_def generate_summary_statistics_def
      summary_tests_def summary_select_def sql_group_by_def demo_table_eq)

text \<open>
  Claim C8. For every table of sessions and every test, the summary rows of that test
  partition the sessions: their \<^verbatim>\<open>total_users\<close> add up to the number of sessions, their
  \<^verbatim>\<open>conversions\<close> add up to the number of converted sessions, and there is exactly one row
  for each variant key that occurs in the test's column, so a variant that no user was
  assigned has no row.
\<close>

theorem summary_rows_partition:
  assumes "(tname, col) \<in> set summary_tests"
  shows "sum_list (map total_users (rows_of_test tname (generate_summary_statistics table)))
           = length table
     \<and> sum_list (map conversions (rows_of_test tname (generate_summary_statistics table)))
           = int (length (filter converted table))
     \<and> distinct (map variant_key (rows_of_test tname (generate_summary_statistics table)))
     \<and> set (map variant_key (rows_of_test tname (generate_summary_statistics table)))
           = col ` set table"
  unfolding rows_of_test_select [OF assms]
  by (simp only: summary_select_total_users summary_select_conversions summary_select_keys
      distinct_remdups set_remdups set_map simp_thms)

theorem summary_rows_partition_witness:
  "(''Pricing Strategy Test'', pricing_variant) \<in> set summary_tests
   \<and> length demo_table = length demo_sessions
   \<and> length (filter converted demo_table) = length (filter converted demo_sessions)
   \<and> map variant_key demo_pricing_rows = [''control'', ''variant_a'']
   \<and> sum_list (map total_users demo_pricing_rows) = 3
   \<and> sum_list (map conversions demo_pricing_rows) = 2
   \<and> ''variant_b'' \<notin> pricing_variant ` set demo_table
   \<and> ''variant_b'' \<notin> set (map variant_key demo_pricing_rows)"
proof -
  have t: "(''Pricing Strategy Test'', pricing_variant) \<in> set summary_tests"
    by (simp add: summary_tests_def)
  have n: "length demo_table = 3" "length (filter converted demo_table) = 2"
    "''variant_b'' \<notin> pricing_variant ` set demo_table"
    by (simp_all add: demo_table_eq)
  have m: "length demo_sessions = 3" "length (filter converted demo_sessions) = 2"
    by (simp_all add: demo_sessions_def)
  show ?thesis
    using summary_rows_partition [OF t, of demo_table] t n m demo_pricing_keys
    by (simp add: demo_pricing_rows_def)
qed

text \<open>
  Claim C9 says that the mean rating of a summary row is absent when no session of its
  group has a rating, and is otherwise the mean over the sessions of the group that have
  one. The query is written for that, and line 418 takes the same mean over the frame
  with \<^verbatim>\<open>notna()\<close>; but a missing rating reaches the table as \<^verbatim>\<open>NaN\<close>, not as \<^verbatim>\<open>NULL\<close>,
  as soon as one session of the run has a rating, and \<^verbatim>\<open>AVG\<close> of a group that holds a
  \<^verbatim>\<open>NaN\<close> is \<^verbatim>\<open>NaN\<close>. In the table of the three demo sessions the only session with five
  screenshots has no rating, and the mean rating of its row is \<^verbatim>\<open>NaN\<close>, not absent; the
  colourful icon was shown to one session rated 3.7 and to one without a rating, and the
  mean rating of its row is \<^verbatim>\<open>NaN\<close>, not 3.7.
\<close>

theorem avg_rating_nan_for_missing_ratings:
  "demo_screenshots_rows =
     [\<lparr>summary_test_name = ''Screenshot Count Test'', variant_key = ''control'',
       total_users = 2, conversions = 2, conversion_rate = Some (Num 1),
       avg_time_spent = Some (Num 45.5), avg_rating = Some (Num 4.1)\<rparr>,
      \<lparr>summary_test_name = ''Screenshot Count Test'', variant_key = ''variant_a'',
       total_users = 1, conversions = 0, conversion_rate = Some (Num 0),
       avg_time_spent = Some (Num 88), avg_rating = Some NaN\<rparr>]
   \<and> demo_icon_rows =
     [\<lparr>summary_test_name = ''App Icon Design Test'', variant_key = ''variant_a'',
       total_users = 1, conversions = 1, conversion_rate = Some (Num 1),
       avg_time_spent = Some (Num 48), avg_rating = Some (Num 4.5)\<rparr>,
      \<lparr>summary_test_name = ''App Icon Design Test'', variant_key = ''variant_b'',
       total_users = 2, conversions = 1, conversion_rate = Some (Num 0.5),
       avg_time_spent = Some (Num 65.5), avg_rating = Some NaN\<rparr>]"
  by (simp add: demo_screenshots_rows_def demo_icon_rows_def rows_of_test_def
      generate_summary_statistics_def summary_tests_def summary_select_def sql_group_by_def
      sql_avg_def demo_table_eq)

end
